theory Spec2Isabelle
  imports Complex_Main
begin

section \<open>The reference gallery: manifest protocol over the GitHub contents API\<close>

text \<open>
  This theory embeds the service functions of \<^verbatim>\<open>src/services/githubService.ts\<close> and the
  handlers of the settings tab (\<^verbatim>\<open>slugify\<close>, \<^verbatim>\<open>getFileNameParts\<close>,
  \<^verbatim>\<open>updateAndPushManifest\<close>, \<^verbatim>\<open>handleUploadComplete\<close>, \<^verbatim>\<open>handleDeleteImage\<close>,
  \<^verbatim>\<open>handleDeleteAlbum\<close>, \<^verbatim>\<open>handleRenameAlbum\<close>) and proves the properties that the
  specification states about them.

  Conventions of the embedding.
  \<^item> A JavaScript string is a HOL \<open>string\<close>: a sequence of characters with code below 256,
    read as the code points U+0000 to U+00FF. Inputs with characters beyond that range
    are outside the model.
  \<^item> Every \<^verbatim>\<open>await\<close> is sequential, so an asynchronous function is a function from the
    world before the call to its result and the world after it.
  \<^item> A thrown exception or rejected promise is the \<open>Inl\<close> of a sum; \<^verbatim>\<open>try/catch\<close> is a
    case distinction on it.
  \<^item> The network is a script of responses, consumed one per request; the requests sent
    are recorded in order, which makes statements such as "issues no remote call"
    expressible.
\<close>

subsection \<open>Characters and strings\<close>

text \<open>The white space of \<^verbatim>\<open>String.prototype.trim\<close> and of \<^verbatim>\<open>\s\<close> below U+0100:
  TAB, LF, VT, FF, CR, SPACE and NO-BREAK SPACE.\<close>

definition isSpace :: "char \<Rightarrow> bool" where
  "isSpace c = ((of_char c :: nat) \<in> {9, 10, 11, 12, 13, 32, 160})"

text \<open>The class \<^verbatim>\<open>\w\<close> of a regular expression without flags: \<^verbatim>\<open>[A-Za-z0-9_]\<close>.\<close>

definition isWord :: "char \<Rightarrow> bool" where
  "isWord c = (let n = (of_char c :: nat) in
     (65 \<le> n \<and> n \<le> 90) \<or> (97 \<le> n \<and> n \<le> 122) \<or> (48 \<le> n \<and> n \<le> 57) \<or> n = 95)"

text \<open>\<^verbatim>\<open>normalize('NFD').replace(/[\u0300-\u036f]/g, '')\<close> on one character: canonical
  decomposition splits an accented Latin-1 letter into its base letter and combining
  marks, and the replacement deletes the marks. The other characters below U+0100 have
  no canonical decomposition.\<close>

definition stripMarks :: "char \<Rightarrow> char" where
  "stripMarks c = (let n = (of_char c :: nat) in
     if 192 \<le> n \<and> n \<le> 197 then CHR ''A''
     else if n = 199 then CHR ''C''
     else if 200 \<le> n \<and> n \<le> 203 then CHR ''E''
     else if 204 \<le> n \<and> n \<le> 207 then CHR ''I''
     else if n = 209 then CHR ''N''
     else if 210 \<le> n \<and> n \<le> 214 then CHR ''O''
     else if 217 \<le> n \<and> n \<le> 220 then CHR ''U''
     else if n = 221 then CHR ''Y''
     else if 224 \<le> n \<and> n \<le> 229 then CHR ''a''
     else if n = 231 then CHR ''c''
     else if 232 \<le> n \<and> n \<le> 235 then CHR ''e''
     else if 236 \<le> n \<and> n \<le> 239 then CHR ''i''
     else if n = 241 then CHR ''n''
     else if 242 \<le> n \<and> n \<le> 246 then CHR ''o''
     else if 249 \<le> n \<and> n \<le> 252 then CHR ''u''
     else if n = 253 \<or> n = 255 then CHR ''y''
     else c)"

text \<open>\<^verbatim>\<open>toLowerCase\<close> on one character below U+0100: the letters A to Z and the
  letters U+00C0 to U+00DE (the multiplication sign U+00D7 apart) move up by 32.\<close>

definition toLowerChar :: "char \<Rightarrow> char" where
  "toLowerChar c = (let n = (of_char c :: nat) in
     if (65 \<le> n \<and> n \<le> 90) \<or> (192 \<le> n \<and> n \<le> 222 \<and> n \<noteq> 215) then char_of (n + 32) else c)"

definition trim :: "string \<Rightarrow> string" where
  "trim s = rev (dropWhile isSpace (rev (dropWhile isSpace s)))"

text \<open>\<^verbatim>\<open>replace(/P+/g, '-')\<close> for a character class \<open>P\<close>: every maximal run of characters
  of the class becomes one dash. The flag says whether the previous character belonged
  to the run that is being replaced.\<close>

fun replaceRuns :: "(char \<Rightarrow> bool) \<Rightarrow> bool \<Rightarrow> string \<Rightarrow> string" where
  "replaceRuns p inRun [] = []"
| "replaceRuns p inRun (c # cs) =
     (if p c then (if inRun then replaceRuns p True cs else CHR ''-'' # replaceRuns p True cs)
      else c # replaceRuns p False cs)"

text \<open>
  \<^verbatim>\<open>
  const slugify = (text: string): string => {
      if (!text) return '';
      return text.toString().normalize('NFD').replace(/[\u0300-\u036f]/g, '').toLowerCase()
          .trim().replace(/\s+/g, '-').replace(/[^\w-]+/g, '').replace(/--+/g, '-');
  };
  \<close>
  The last replacement turns every run of two or more dashes into one dash and leaves a
  single dash as it is, which is \<open>replaceRuns\<close> on the class of the dash.
\<close>

definition slugify :: "string \<Rightarrow> string" where
  "slugify text =
     (if text = [] then []
      else replaceRuns (\<lambda>c. c = CHR ''-'') False
             (filter (\<lambda>c. isWord c \<or> c = CHR ''-'')
               (replaceRuns isSpace False
                 (trim (map toLowerChar (map stripMarks text))))))"

text \<open>\<^verbatim>\<open>fileName.lastIndexOf('.')\<close>: the index of the last dot, if there is one.\<close>

fun lastIndexOf :: "char \<Rightarrow> string \<Rightarrow> nat option" where
  "lastIndexOf d [] = None"
| "lastIndexOf d (c # cs) =
     (case lastIndexOf d cs of
        Some i \<Rightarrow> Some (Suc i)
      | None \<Rightarrow> if c = d then Some 0 else None)"

record FileNameParts =
  name :: string
  extension :: string

text \<open>
  \<^verbatim>\<open>
  const getFileNameParts = (fileName: string) => {
      const lastDot = fileName.lastIndexOf('.');
      if (lastDot === -1 || lastDot === 0) return { name: fileName, extension: '' };
      return { name: fileName.substring(0, lastDot), extension: fileName.substring(lastDot + 1) };
  };
  \<close>
\<close>

definition getFileNameParts :: "string \<Rightarrow> FileNameParts" where
  "getFileNameParts fileName =
     (case lastIndexOf CHR ''.'' fileName of
        None \<Rightarrow> \<lparr>name = fileName, extension = []\<rparr>
      | Some lastDot \<Rightarrow>
          if lastDot = 0 then \<lparr>name = fileName, extension = []\<rparr>
          else \<lparr>name = take lastDot fileName, extension = drop (lastDot + 1) fileName\<rparr>)"

text \<open>The decimal rendering of an integer in a template literal. \<^verbatim>\<open>Date.now() + index\<close>
  is an integer far below \<open>10\<^sup>2\<^sup>1\<close>, where JavaScript switches to exponent notation.\<close>

definition digit :: "nat \<Rightarrow> char" where
  "digit d = char_of (48 + d)"

fun showNat :: "nat \<Rightarrow> string" where
  "showNat n = (if n < 10 then [digit n] else showNat (n div 10) @ [digit (n mod 10)])"

declare showNat.simps [simp del]

definition showInt :: "int \<Rightarrow> string" where
  "showInt i = (if i < 0 then CHR ''-'' # showNat (nat (- i)) else showNat (nat i))"


subsection \<open>JavaScript values\<close>

text \<open>The values that \<^verbatim>\<open>JSON.parse\<close> and \<^verbatim>\<open>response.json()\<close> deliver, with
  \<^verbatim>\<open>undefined\<close> for a missing property and the \<^verbatim>\<open>Response\<close> object that
  \<^verbatim>\<open>makeRequest\<close> returns when no JSON is expected. A number is given by its value (of a
  number only its truth value is ever used: an infinity, which \<^verbatim>\<open>JSON.parse\<close> gives for a
  very large literal, may be read as any number other than zero); an object by its own
  properties, each key once.\<close>

datatype jsval =
    JUndefined
  | JNull
  | JBool bool
  | JNum real
  | JStr string
  | JArr "jsval list"
  | JObj "(string \<times> jsval) list"
  | JResponse

text \<open>What \<^verbatim>\<open>if (v)\<close> and \<^verbatim>\<open>!v\<close> test.\<close>

fun truthy :: "jsval \<Rightarrow> bool" where
  "truthy JUndefined = False"
| "truthy JNull = False"
| "truthy (JBool b) = b"
| "truthy (JNum r) = (r \<noteq> 0)"
| "truthy (JStr s) = (s \<noteq> [])"
| "truthy (JArr xs) = True"
| "truthy (JObj kvs) = True"
| "truthy JResponse = True"

fun isArray :: "jsval \<Rightarrow> bool" where
  "isArray (JArr xs) = True"
| "isArray v = False"

datatype error =
    NetworkError              \<comment> \<open>\<^verbatim>\<open>fetch\<close> rejects\<close>
  | GitHubApiError nat        \<comment> \<open>\<^verbatim>\<open>GitHub API Error (status): ...\<close>, thrown by \<^verbatim>\<open>makeRequest\<close>\<close>
  | SyntaxError               \<comment> \<open>\<^verbatim>\<open>response.json()\<close> or \<^verbatim>\<open>JSON.parse\<close> on text that is not JSON\<close>
  | InvalidCharacterError     \<comment> \<open>\<^verbatim>\<open>atob\<close> on text that is not base64\<close>
  | TypeError                 \<comment> \<open>a property of \<^verbatim>\<open>null\<close> or \<^verbatim>\<open>undefined\<close>, a call of a non-function,
                                  an iteration over a non-iterable\<close>
  | RawFetchError             \<comment> \<open>\<^verbatim>\<open>Failed to fetch raw file content from ...\<close>\<close>
  | ReadError                 \<comment> \<open>the \<^verbatim>\<open>FileReader\<close> fires \<^verbatim>\<open>onerror\<close>\<close>
  | CouldNotFindFile          \<comment> \<open>\<^verbatim>\<open>Could not find file to delete.\<close>\<close>
  | CannotRename              \<comment> \<open>\<^verbatim>\<open>Cannot rename: Invalid or duplicate name, or trying to rename
                                  the default 'normal' album.\<close>\<close>
  | NotAGithubManifest        \<comment> \<open>the value read is not of the declared type \<^verbatim>\<open>GithubManifest\<close>;
                                  what the handlers do with it is outside the model\<close>
  | UnsupportedPattern        \<comment> \<open>an album name with regular-expression syntax in it; what
                                  \<^verbatim>\<open>new RegExp\<close> makes of it is outside the model\<close>

text \<open>The read of a property that no prototype defines (\<^verbatim>\<open>sha\<close>, \<^verbatim>\<open>content\<close>,
  \<^verbatim>\<open>images\<close>, \<^verbatim>\<open>albums\<close>): an own property of an object, \<^verbatim>\<open>undefined\<close> on any other
  value, and a \<^verbatim>\<open>TypeError\<close> on \<^verbatim>\<open>null\<close> and \<^verbatim>\<open>undefined\<close>.\<close>

fun getProp :: "jsval \<Rightarrow> string \<Rightarrow> error + jsval" where
  "getProp JUndefined k = Inl TypeError"
| "getProp JNull k = Inl TypeError"
| "getProp (JObj kvs) k = (case map_of kvs k of None \<Rightarrow> Inr JUndefined | Some v \<Rightarrow> Inr v)"
| "getProp v k = Inr JUndefined"

text \<open>\<^verbatim>\<open>s.split(',')\<close> and \<^verbatim>\<open>s.split(',')[1]\<close>.\<close>

fun split :: "char \<Rightarrow> string \<Rightarrow> string list" where
  "split d [] = [[]]"
| "split d (c # cs) =
     (case split d cs of
        [] \<Rightarrow> (if c = d then [[], []] else [[c]])
      | p # ps \<Rightarrow> (if c = d then [] # p # ps else (c # p) # ps))"

definition afterComma :: "string \<Rightarrow> jsval" where
  "afterComma s = (case split CHR '','' s of p # q # qs \<Rightarrow> JStr q | _ \<Rightarrow> JUndefined)"

subsection \<open>The manifest\<close>

record GithubManifestItem =
  path :: string
  createdAt :: string

record GithubManifest =
  albums :: "string \<rightharpoonup> GithubManifestItem list"

text \<open>The album mapping is a plain JavaScript object, so \<^verbatim>\<open>albums[k]\<close> also finds what
  \<^verbatim>\<open>Object.prototype\<close> defines under \<open>k\<close>: a function or object, which is truthy and
  is not an array.\<close>

definition objectPrototypeKeys :: "string list" where
  "objectPrototypeKeys =
     [''constructor'', ''__defineGetter__'', ''__defineSetter__'', ''hasOwnProperty'',
      ''__lookupGetter__'', ''__lookupSetter__'', ''isPrototypeOf'', ''propertyIsEnumerable'',
      ''toString'', ''valueOf'', ''__proto__'', ''toLocaleString'']"

datatype 'a lookup = Own 'a | Inherited | Absent

definition albumLookup :: "(string \<rightharpoonup> 'a) \<Rightarrow> string \<Rightarrow> 'a lookup" where
  "albumLookup a k =
     (case a k of
        Some v \<Rightarrow> Own v
      | None \<Rightarrow> if k \<in> set objectPrototypeKeys then Inherited else Absent)"

text \<open>The values of the declared type \<^verbatim>\<open>GithubManifest\<close> among the JavaScript values:
  an object with the one key \<^verbatim>\<open>albums\<close>, holding an object whose values are arrays of
  objects with the two string properties \<^verbatim>\<open>path\<close> and \<^verbatim>\<open>createdAt\<close>.\<close>

definition asItem :: "jsval \<Rightarrow> GithubManifestItem option" where
  "asItem v =
     (case v of
        JObj kvs \<Rightarrow>
          (if length kvs = 2 \<and> distinct (map fst kvs) then
             (case (map_of kvs ''path'', map_of kvs ''createdAt'') of
                (Some (JStr p), Some (JStr c)) \<Rightarrow> Some \<lparr>path = p, createdAt = c\<rparr>
              | _ \<Rightarrow> None)
           else None)
      | _ \<Rightarrow> None)"

definition asItems :: "jsval \<Rightarrow> GithubManifestItem list option" where
  "asItems v = (case v of JArr xs \<Rightarrow> those (map asItem xs) | _ \<Rightarrow> None)"

definition asAlbums :: "jsval \<Rightarrow> (string \<rightharpoonup> GithubManifestItem list) option" where
  "asAlbums v =
     (case v of
        JObj kvs \<Rightarrow>
          (if distinct (map fst kvs) \<and> list_all (\<lambda>kv. asItems (snd kv) \<noteq> None) kvs
           then Some (\<lambda>k. case map_of kvs k of None \<Rightarrow> None | Some x \<Rightarrow> asItems x)
           else None)
      | _ \<Rightarrow> None)"

definition asGithubManifest :: "jsval \<Rightarrow> GithubManifest option" where
  "asGithubManifest v =
     (case v of
        JObj [(k, a)] \<Rightarrow>
          (if k = ''albums'' then
             (case asAlbums a of None \<Rightarrow> None | Some al \<Rightarrow> Some \<lparr>albums = al\<rparr>)
           else None)
      | _ \<Rightarrow> None)"

subsection \<open>The world around the program\<close>

text \<open>A request to the network. The commit message that every write carries in its body
  is a function of the path and is left out.\<close>

datatype request =
    GetContents string                        \<comment> \<open>\<^verbatim>\<open>GET .../contents/path\<close>, \<^verbatim>\<open>cache: 'no-store'\<close>\<close>
  | PutContents string jsval "jsval option"   \<comment> \<open>\<^verbatim>\<open>PUT .../contents/path\<close> with \<^verbatim>\<open>content\<close>
                                                 and, for an update, \<^verbatim>\<open>sha\<close>\<close>
  | DeleteContents string jsval               \<comment> \<open>\<^verbatim>\<open>DELETE .../contents/path\<close> with \<^verbatim>\<open>sha\<close>\<close>
  | GetRaw string                             \<comment> \<open>\<^verbatim>\<open>GET\<close> of \<^verbatim>\<open>getRawFileUrl(path)\<close>, without token\<close>

datatype response =
    Rejected                \<comment> \<open>no response: the promise of \<^verbatim>\<open>fetch\<close> rejects\<close>
  | Http nat string         \<comment> \<open>status and body\<close>

record reading =
  millis :: int             \<comment> \<open>\<^verbatim>\<open>Date.now()\<close>\<close>
  iso :: string             \<comment> \<open>\<^verbatim>\<open>new Date().toISOString()\<close>\<close>

text \<open>
  The world: the responses that the network will give, in order (when they run out, the
  network is down); the requests sent so far; the system clock as the sequence of its
  readings and the number of readings taken; and the functions of the JavaScript
  runtime that the program calls and the model does not define, with \<open>None\<close> where they
  throw or signal an error. \<^verbatim>\<open>JSON.stringify\<close> of a manifest gives a text of characters
  with code below 256, on which \<^verbatim>\<open>btoa\<close> does not throw.
\<close>

record world =
  responses :: "response list"
  trace :: "request list"
  clock :: "nat \<Rightarrow> reading"
  ticks :: nat
  JSON_parse :: "string \<Rightarrow> jsval option"
  atob :: "jsval \<Rightarrow> string option"
  btoa_stringify :: "GithubManifest \<Rightarrow> string"   \<comment> \<open>\<^verbatim>\<open>btoa(JSON.stringify(m, null, 2))\<close>\<close>
  readAsDataURL :: "string \<Rightarrow> string option"
  confirm :: "string \<Rightarrow> bool"                     \<comment> \<open>\<^verbatim>\<open>window.confirm\<close>\<close>

definition now :: "world \<Rightarrow> reading \<times> world" where
  "now w = (clock w (ticks w), w\<lparr>ticks := Suc (ticks w)\<rparr>)"

definition fetch :: "request \<Rightarrow> world \<Rightarrow> response \<times> world" where
  "fetch req w =
     (case responses w of
        [] \<Rightarrow> (Rejected, w\<lparr>trace := trace w @ [req]\<rparr>)
      | r # rs \<Rightarrow> (r, w\<lparr>responses := rs, trace := trace w @ [req]\<rparr>))"

subsection \<open>The service functions\<close>

text \<open>\<^verbatim>\<open>response.ok\<close>.\<close>

definition ok :: "nat \<Rightarrow> bool" where
  "ok status = (200 \<le> status \<and> status \<le> 299)"

text \<open>
  \<^verbatim>\<open>
  const makeRequest = async (url, token, options = {}, expectJson = true) => {
      const response = await fetch(url, {...});
      if (!response.ok) {
          // Don't throw for 404, as we handle it specifically in consumer functions
          if (response.status === 404) { return null; }
          const errorData = await response.json().catch(() => ({ message: response.statusText }));
          throw new Error(`GitHub API Error (${response.status}): ...`);
      }
      return expectJson ? response.json() : response;
  };
  \<close>
  For a status that is neither ok nor 404 the function throws whatever the body of the
  response is; the thrown value is represented by \<open>GitHubApiError\<close> with the status.
\<close>

definition makeRequest :: "request \<Rightarrow> bool \<Rightarrow> world \<Rightarrow> (error + jsval) \<times> world" where
  "makeRequest req expectJson w =
     (case fetch req w of
        (Rejected, w') \<Rightarrow> (Inl NetworkError, w')
      | (Http status body, w') \<Rightarrow>
          if \<not> ok status then
            (if status = 404 then (Inr JNull, w') else (Inl (GitHubApiError status), w'))
          else if expectJson then
            (case JSON_parse w' body of
               None \<Rightarrow> (Inl SyntaxError, w')
             | Some v \<Rightarrow> (Inr v, w'))
          else (Inr JResponse, w'))"

text \<open>\<^verbatim>\<open>const defaultManifest: GithubManifest = { albums: { normal: [] } };\<close>\<close>

definition defaultManifest :: jsval where
  "defaultManifest = JObj [(''albums'', JObj [(''normal'', JArr [])])]"

text \<open>The body of the \<^verbatim>\<open>try\<close> block of \<^verbatim>\<open>getManifest\<close>:
  \<^verbatim>\<open>
      const data = await makeRequest(url, token, { cache: 'no-store' });
      if (!data) { return defaultManifest; }
      const content = atob(data.content);
      const parsed = JSON.parse(content);
      if (parsed.images && Array.isArray(parsed.images)) {
          return { albums: { normal: parsed.images } };
      }
      if (!parsed.albums) { return defaultManifest; }
      return parsed as GithubManifest;
  \<close>
\<close>

definition getManifest_try :: "world \<Rightarrow> (error + jsval) \<times> world" where
  "getManifest_try w =
     (case makeRequest (GetContents ''manifest.json'') True w of
        (Inl e, w') \<Rightarrow> (Inl e, w')
      | (Inr data, w') \<Rightarrow>
          if \<not> truthy data then (Inr defaultManifest, w')
          else
            (case getProp data ''content'' of
               Inl e \<Rightarrow> (Inl e, w')
             | Inr c \<Rightarrow>
                 (case atob w' c of
                    None \<Rightarrow> (Inl InvalidCharacterError, w')
                  | Some content \<Rightarrow>
                      (case JSON_parse w' content of
                         None \<Rightarrow> (Inl SyntaxError, w')
                       | Some parsed \<Rightarrow>
                           (case getProp parsed ''images'' of
                              Inl e \<Rightarrow> (Inl e, w')
                            | Inr images \<Rightarrow>
                                if truthy images \<and> isArray images then
                                  (Inr (JObj [(''albums'', JObj [(''normal'', images)])]), w')
                                else
                                  (case getProp parsed ''albums'' of
                                     Inl e \<Rightarrow> (Inl e, w')
                                   | Inr a \<Rightarrow>
                                       if \<not> truthy a then (Inr defaultManifest, w')
                                       else (Inr parsed, w')))))))"

text \<open>\<^verbatim>\<open>getManifest\<close> with its \<^verbatim>\<open>catch\<close>: \<^verbatim>\<open>return defaultManifest\<close> on any failure.\<close>

definition getManifest :: "world \<Rightarrow> jsval \<times> world" where
  "getManifest w =
     (case getManifest_try w of
        (Inl e, w') \<Rightarrow> (defaultManifest, w')
      | (Inr v, w') \<Rightarrow> (v, w'))"

text \<open>
  \<^verbatim>\<open>
  export const getFileSha = async (token, filePath) => {
      const data = await makeRequest(url, token, { cache: 'no-store' });
      return data ? data.sha : null;
  };
  \<close>
\<close>

definition getFileSha :: "string \<Rightarrow> world \<Rightarrow> (error + jsval) \<times> world" where
  "getFileSha filePath w =
     (case makeRequest (GetContents filePath) True w of
        (Inl e, w') \<Rightarrow> (Inl e, w')
      | (Inr data, w') \<Rightarrow>
          if truthy data then (getProp data ''sha'', w') else (Inr JNull, w'))"

text \<open>\<^verbatim>\<open>getRawFileContent\<close>: a plain \<^verbatim>\<open>fetch\<close> of the raw URL, an error unless the
  response is ok, then the body as a data URL, of which the part after the comma.\<close>

definition getRawFileContent :: "string \<Rightarrow> world \<Rightarrow> (error + jsval) \<times> world" where
  "getRawFileContent filePath w =
     (case fetch (GetRaw filePath) w of
        (Rejected, w') \<Rightarrow> (Inl NetworkError, w')
      | (Http status body, w') \<Rightarrow>
          if \<not> ok status then (Inl RawFetchError, w')
          else
            (case readAsDataURL w' body of
               None \<Rightarrow> (Inl ReadError, w')
             | Some url \<Rightarrow> (Inr (afterComma url), w')))"

text \<open>\<^verbatim>\<open>uploadFile\<close>, \<^verbatim>\<open>updateFile\<close> and \<^verbatim>\<open>deleteFile\<close> await one \<^verbatim>\<open>makeRequest\<close>
  and drop what it returns. \<^verbatim>\<open>updateFile\<close> passes no fourth argument, so that it
  expects JSON.\<close>

definition uploadFile :: "string \<Rightarrow> jsval \<Rightarrow> world \<Rightarrow> (error + unit) \<times> world" where
  "uploadFile filePath contentBase64 w =
     (case makeRequest (PutContents filePath contentBase64 None) False w of
        (Inl e, w') \<Rightarrow> (Inl e, w')
      | (Inr r, w') \<Rightarrow> (Inr (), w'))"

definition updateFile :: "string \<Rightarrow> jsval \<Rightarrow> jsval \<Rightarrow> world \<Rightarrow> (error + unit) \<times> world" where
  "updateFile filePath contentBase64 sha w =
     (case makeRequest (PutContents filePath contentBase64 (Some sha)) True w of
        (Inl e, w') \<Rightarrow> (Inl e, w')
      | (Inr r, w') \<Rightarrow> (Inr (), w'))"

definition deleteFile :: "string \<Rightarrow> jsval \<Rightarrow> world \<Rightarrow> (error + unit) \<times> world" where
  "deleteFile filePath sha w =
     (case makeRequest (DeleteContents filePath sha) False w of
        (Inl e, w') \<Rightarrow> (Inl e, w')
      | (Inr r, w') \<Rightarrow> (Inr (), w'))"


subsection \<open>The settings tab\<close>

text \<open>The state of the component: \<^verbatim>\<open>manifest\<close> (\<^verbatim>\<open>null\<close> until loaded), \<^verbatim>\<open>error\<close>,
  \<^verbatim>\<open>actionMessage\<close> and \<^verbatim>\<open>isProcessing\<close>. The error state holds the thrown value,
  which stands for its message. The timer that clears the action message after five
  seconds is not modelled.\<close>

record SettingsTab =
  manifest :: "GithubManifest option"
  error :: "error option"
  actionMessage :: "string option"
  isProcessing :: bool

record File =
  fileName :: string        \<comment> \<open>\<^verbatim>\<open>file.name\<close>\<close>
  bytes :: string

record FileToUpload =
  file' :: File       \<comment> \<open>the field \<^verbatim>\<open>file\<close>\<close>
  albumName :: string

text \<open>
  \<^verbatim>\<open>
  const updateAndPushManifest = async (newManifest, summaryMessage) => {
      const manifestSha = await getFileSha(githubToken, 'manifest.json');
      const updatedContent = JSON.stringify(newManifest, null, 2);
      const updatedBase64 = btoa(updatedContent);
      if (manifestSha) {
          await updateFile(githubToken, 'manifest.json', updatedBase64, manifestSha);
      } else {
          await uploadFile(githubToken, 'manifest.json', updatedBase64);
      }
      setManifest(newManifest); // Update local state
      setActionMessage(summaryMessage);
      setTimeout(() => setActionMessage(null), 5000);
  };
  \<close>
\<close>

definition updateAndPushManifest ::
  "GithubManifest \<Rightarrow> string \<Rightarrow> SettingsTab \<Rightarrow> world \<Rightarrow> (error + SettingsTab) \<times> world" where
  "updateAndPushManifest newManifest summaryMessage c w =
     (case getFileSha ''manifest.json'' w of
        (Inl e, w1) \<Rightarrow> (Inl e, w1)
      | (Inr manifestSha, w1) \<Rightarrow>
          (let updatedBase64 = JStr (btoa_stringify w1 newManifest) in
           case (if truthy manifestSha
                 then updateFile ''manifest.json'' updatedBase64 manifestSha w1
                 else uploadFile ''manifest.json'' updatedBase64 w1) of
             (Inl e, w2) \<Rightarrow> (Inl e, w2)
           | (Inr u, w2) \<Rightarrow>
               (Inr (c\<lparr>manifest := Some newManifest, actionMessage := Some summaryMessage\<rparr>), w2)))"

subsubsection \<open>Adding images\<close>

text \<open>\<^verbatim>\<open>newEntriesByAlbum\<close>: the new records by album, the albums in the order of their
  first file: \<^verbatim>\<open>if (!newEntriesByAlbum[albumName]) newEntriesByAlbum[albumName] = [];
  newEntriesByAlbum[albumName].push(...)\<close>.\<close>

fun addEntry ::
  "string \<Rightarrow> GithubManifestItem \<Rightarrow> (string \<times> GithubManifestItem list) list
     \<Rightarrow> (string \<times> GithubManifestItem list) list" where
  "addEntry k e [] = [(k, [e])]"
| "addEntry k e ((k', es) # rest) =
     (if k' = k then (k', es @ [e]) # rest else (k', es) # addEntry k e rest)"

text \<open>The path of a new image:
  \<^verbatim>\<open>
  const newFileName = `${slugify(albumName)}_${Date.now() + index}_${slugify(originalName)}.${extension}`;
  const imagePath = `${albumName}/${newFileName}`;
  \<close>
\<close>

definition imagePath :: "string \<Rightarrow> int \<Rightarrow> string \<Rightarrow> string" where
  "imagePath album stamp fileNm =
     (let parts = getFileNameParts fileNm;
          newFileName = slugify album @ ''_'' @ showInt stamp @ ''_'' @ slugify (name parts)
                          @ ''.'' @ extension parts
      in album @ ''/'' @ newFileName)"

text \<open>One turn of the loop over \<^verbatim>\<open>uploadedFiles.entries()\<close>: the path from the clock and
  the index, the file read as a data URL, the upload, and the new record under its
  album. The record cannot be pushed when \<^verbatim>\<open>Object.prototype\<close> defines the album name:
  \<^verbatim>\<open>newEntriesByAlbum[albumName]\<close> is then truthy and has no \<^verbatim>\<open>push\<close>.\<close>

definition uploadOne ::
  "nat \<Rightarrow> FileToUpload \<Rightarrow> (string \<times> GithubManifestItem list) list \<Rightarrow> world
     \<Rightarrow> (error + (string \<times> GithubManifestItem list) list) \<times> world" where
  "uploadOne index f newEntriesByAlbum w =
     (case now w of (t, w1) \<Rightarrow>
        (let p = imagePath (albumName f) (millis t + int index) (fileName (file' f)) in
         case readAsDataURL w1 (bytes (file' f)) of
           None \<Rightarrow> (Inl ReadError, w1)
         | Some url \<Rightarrow>
             (case uploadFile p (afterComma url) w1 of
                (Inl e, w2) \<Rightarrow> (Inl e, w2)
              | (Inr u, w2) \<Rightarrow>
                  (case now w2 of (d, w3) \<Rightarrow>
                     if albumName f \<in> set objectPrototypeKeys then (Inl TypeError, w3)
                     else (Inr (addEntry (albumName f) \<lparr>path = p, createdAt = iso d\<rparr>
                                  newEntriesByAlbum), w3)))))"

fun uploadLoop ::
  "nat \<Rightarrow> FileToUpload list \<Rightarrow> (string \<times> GithubManifestItem list) list \<Rightarrow> world
     \<Rightarrow> (error + (string \<times> GithubManifestItem list) list) \<times> world" where
  "uploadLoop index [] newEntriesByAlbum w = (Inr newEntriesByAlbum, w)"
| "uploadLoop index (f # fs) newEntriesByAlbum w =
     (case uploadOne index f newEntriesByAlbum w of
        (Inl e, w') \<Rightarrow> (Inl e, w')
      | (Inr entries, w') \<Rightarrow> uploadLoop (Suc index) fs entries w')"

text \<open>One turn of \<^verbatim>\<open>for (const albumName in newEntriesByAlbum)\<close>: the new records are
  pushed onto the album's list, or become the list of a new album. The keys of
  \<^verbatim>\<open>newEntriesByAlbum\<close> are never names that \<^verbatim>\<open>Object.prototype\<close> defines (the loop
  above has thrown on those), so that \<^verbatim>\<open>updatedAlbums[albumName]\<close> is truthy exactly
  when the album exists.\<close>

definition pushEntries ::
  "(string \<rightharpoonup> GithubManifestItem list) \<Rightarrow> string \<times> GithubManifestItem list
     \<Rightarrow> (string \<rightharpoonup> GithubManifestItem list)" where
  "pushEntries updatedAlbums kv =
     (case updatedAlbums (fst kv) of
        Some old \<Rightarrow> updatedAlbums(fst kv \<mapsto> old @ snd kv)
      | None \<Rightarrow> updatedAlbums(fst kv \<mapsto> snd kv))"

text \<open>The \<^verbatim>\<open>try\<close> block of \<^verbatim>\<open>handleUploadComplete\<close>. The manifest read at the start
  is first used after the loop (\<^verbatim>\<open>{ ...currentManifest.albums }\<close>).\<close>

definition handleUploadComplete_try ::
  "FileToUpload list \<Rightarrow> SettingsTab \<Rightarrow> world \<Rightarrow> (error + SettingsTab) \<times> world" where
  "handleUploadComplete_try uploadedFiles c w =
     (case getManifest w of (currentManifest, w1) \<Rightarrow>
        (case uploadLoop 0 uploadedFiles [] w1 of
           (Inl e, w2) \<Rightarrow> (Inl e, w2)
         | (Inr newEntriesByAlbum, w2) \<Rightarrow>
             (case asGithubManifest currentManifest of
                None \<Rightarrow> (Inl NotAGithubManifest, w2)
              | Some cm \<Rightarrow>
                  (let updatedAlbums = foldl pushEntries (albums cm) newEntriesByAlbum;
                       newManifest = \<lparr>albums = updatedAlbums\<rparr>
                   in updateAndPushManifest newManifest
                        (''Successfully uploaded '' @ showNat (length uploadedFiles) @ '' file(s)!'')
                        c w2))))"

text \<open>\<^verbatim>\<open>handleUploadComplete\<close>: nothing without a manifest; otherwise the \<^verbatim>\<open>try\<close> block,
  \<^verbatim>\<open>catch (err) { setError(...) }\<close> and \<^verbatim>\<open>finally { setIsProcessing(false) }\<close>.\<close>

definition handleUploadComplete :: "FileToUpload list \<Rightarrow> SettingsTab \<Rightarrow> world \<Rightarrow> SettingsTab \<times> world" where
  "handleUploadComplete uploadedFiles c w =
     (case manifest c of
        None \<Rightarrow> (c, w)
      | Some m \<Rightarrow>
          (let c1 = c\<lparr>isProcessing := True,
                      actionMessage := Some (''Uploading '' @ showNat (length uploadedFiles) @ '' file(s)...'')\<rparr>
           in case handleUploadComplete_try uploadedFiles c1 w of
                (Inl e, w') \<Rightarrow> (c1\<lparr>error := Some e, isProcessing := False\<rparr>, w')
              | (Inr c2, w') \<Rightarrow> (c2\<lparr>isProcessing := False\<rparr>, w')))"

subsubsection \<open>Deleting an image\<close>

text \<open>
  \<^verbatim>\<open>
      const sha = await getFileSha(githubToken, imagePath);
      if (!sha) throw new Error("Could not find file to delete.");
      await deleteFile(githubToken, imagePath, sha);
      const newManifest = { ...manifest };
      newManifest.albums[albumName] = newManifest.albums[albumName].filter(img => img.path !== imagePath);
      await updateAndPushManifest(newManifest, `Successfully deleted ${imagePath}.`);
  \<close>
  The copy \<^verbatim>\<open>{ ...manifest }\<close> shares the object \<^verbatim>\<open>albums\<close> with the manifest of the
  state, so that the assignment changes the state at once, whether or not the push that
  follows succeeds: the block returns the state with its result.
\<close>

definition handleDeleteImage_try ::
  "string \<Rightarrow> string \<Rightarrow> GithubManifest \<Rightarrow> SettingsTab \<Rightarrow> world
     \<Rightarrow> (error option \<times> SettingsTab) \<times> world" where
  "handleDeleteImage_try album imgPath m c w =
     (case getFileSha imgPath w of
        (Inl e, w1) \<Rightarrow> ((Some e, c), w1)
      | (Inr sha, w1) \<Rightarrow>
          if \<not> truthy sha then ((Some CouldNotFindFile, c), w1)
          else
            (case deleteFile imgPath sha w1 of
               (Inl e, w2) \<Rightarrow> ((Some e, c), w2)
             | (Inr u, w2) \<Rightarrow>
                 (case albumLookup (albums m) album of
                    Own imgs \<Rightarrow>
                      (let newManifest = m\<lparr>albums := (albums m)(album \<mapsto> filter (\<lambda>img. path img \<noteq> imgPath) imgs)\<rparr>;
                           c' = c\<lparr>manifest := Some newManifest\<rparr>
                       in case updateAndPushManifest newManifest
                                 (''Successfully deleted '' @ imgPath @ ''.'') c' w2 of
                            (Inl e, w3) \<Rightarrow> ((Some e, c'), w3)
                          | (Inr c'', w3) \<Rightarrow> ((None, c''), w3))
                  | _ \<Rightarrow> ((Some TypeError, c), w2))))"

definition handleDeleteImage :: "string \<Rightarrow> string \<Rightarrow> SettingsTab \<Rightarrow> world \<Rightarrow> SettingsTab \<times> world" where
  "handleDeleteImage album imgPath c w =
     (case manifest c of
        None \<Rightarrow> (c, w)
      | Some m \<Rightarrow>
          if \<not> confirm w ''Are you sure you want to delete this image? This action is permanent.''
          then (c, w)
          else
            (let c1 = c\<lparr>isProcessing := True,
                        actionMessage := Some (''Deleting '' @ imgPath @ ''...'')\<rparr>
             in case handleDeleteImage_try album imgPath m c1 w of
                  ((Some e, c2), w') \<Rightarrow> (c2\<lparr>error := Some e, isProcessing := False\<rparr>, w')
                | ((None, c2), w') \<Rightarrow> (c2\<lparr>isProcessing := False\<rparr>, w')))"

subsubsection \<open>Deleting an album\<close>

text \<open>
  \<^verbatim>\<open>
      for (const image of imagesToDelete) {
          const sha = await getFileSha(githubToken, image.path);
          if (sha) { await deleteFile(githubToken, image.path, sha); }
      }
  \<close>
\<close>

fun deleteLoop :: "GithubManifestItem list \<Rightarrow> world \<Rightarrow> (error + unit) \<times> world" where
  "deleteLoop [] w = (Inr (), w)"
| "deleteLoop (img # images) w =
     (case getFileSha (path img) w of
        (Inl e, w1) \<Rightarrow> (Inl e, w1)
      | (Inr sha, w1) \<Rightarrow>
          if truthy sha then
            (case deleteFile (path img) sha w1 of
               (Inl e, w2) \<Rightarrow> (Inl e, w2)
             | (Inr u, w2) \<Rightarrow> deleteLoop images w2)
          else deleteLoop images w1)"

text \<open>\<^verbatim>\<open>manifest.albums[name] || []\<close> as the subject of \<^verbatim>\<open>for ... of\<close>: the list of an
  album of the manifest, nothing for a name that is not there, and a \<^verbatim>\<open>TypeError\<close>
  for what \<^verbatim>\<open>Object.prototype\<close> defines, which cannot be iterated.\<close>

definition imagesOf :: "GithubManifest \<Rightarrow> string \<Rightarrow> error + GithubManifestItem list" where
  "imagesOf m album =
     (case albumLookup (albums m) album of
        Own imgs \<Rightarrow> Inr imgs
      | Inherited \<Rightarrow> Inl TypeError
      | Absent \<Rightarrow> Inr [])"

text \<open>The \<^verbatim>\<open>try\<close> block of \<^verbatim>\<open>handleDeleteAlbum\<close>; \<^verbatim>\<open>delete newManifest.albums[albumName]\<close>
  changes the manifest of the state, as above.\<close>

definition handleDeleteAlbum_try ::
  "string \<Rightarrow> GithubManifest \<Rightarrow> SettingsTab \<Rightarrow> world \<Rightarrow> (error option \<times> SettingsTab) \<times> world" where
  "handleDeleteAlbum_try album m c w =
     (case imagesOf m album of
        Inl e \<Rightarrow> ((Some e, c), w)
      | Inr imagesToDelete \<Rightarrow>
          (case deleteLoop imagesToDelete w of
             (Inl e, w1) \<Rightarrow> ((Some e, c), w1)
           | (Inr u, w1) \<Rightarrow>
               (let newManifest = m\<lparr>albums := (albums m)(album := None)\<rparr>;
                    c' = c\<lparr>manifest := Some newManifest\<rparr>
                in case updateAndPushManifest newManifest
                          (''Successfully deleted album '' @ album @ ''.'') c' w1 of
                     (Inl e, w2) \<Rightarrow> ((Some e, c'), w2)
                   | (Inr c'', w2) \<Rightarrow> ((None, c''), w2))))"

text \<open>
  \<^verbatim>\<open>
  const handleDeleteAlbum = async (albumName: string) => {
      if (!manifest || albumName === 'normal' || !window.confirm(`Are you sure you want to
          delete the album "${albumName}" and all its images? This is permanent.`)) return;
      setIsProcessing(true);
      setActionMessage(`Deleting album ${albumName}...`);
      try { ... } catch (err) { setError(...) } finally { setIsProcessing(false); }
  };
  \<close>
\<close>

definition handleDeleteAlbum :: "string \<Rightarrow> SettingsTab \<Rightarrow> world \<Rightarrow> SettingsTab \<times> world" where
  "handleDeleteAlbum album c w =
     (case manifest c of
        None \<Rightarrow> (c, w)
      | Some m \<Rightarrow>
          if album = ''normal'' then (c, w)
          else if \<not> confirm w (''Are you sure you want to delete the album '' @ [CHR 0x22] @ album
                                 @ [CHR 0x22] @ '' and all its images? This is permanent.'')
          then (c, w)
          else
            (let c1 = c\<lparr>isProcessing := True,
                        actionMessage := Some (''Deleting album '' @ album @ ''...'')\<rparr>
             in case handleDeleteAlbum_try album m c1 w of
                  ((Some e, c2), w') \<Rightarrow> (c2\<lparr>error := Some e, isProcessing := False\<rparr>, w')
                | ((None, c2), w') \<Rightarrow> (c2\<lparr>isProcessing := False\<rparr>, w')))"

subsubsection \<open>Renaming an album\<close>

text \<open>\<^verbatim>\<open>image.path.replace(new RegExp(`^${oldName}/`), `${newSlug}/`)\<close>. When the album
  name has none of the characters of the syntax of regular expressions, the pattern
  matches exactly the paths that begin with the name and a slash; when the new name has
  no dollar sign, the replacement is taken as it is. Other names are not modelled.\<close>

definition regExpSyntax :: string where
  "regExpSyntax = [CHR 0x5C, CHR ''^'', CHR ''$'', CHR ''.'', CHR ''*'', CHR ''+'', CHR ''?'',
                   CHR ''('', CHR '')'', CHR ''['', CHR '']'', CHR ''{'', CHR ''}'', CHR ''|'']"

definition replaceAlbumPrefix :: "string \<Rightarrow> string \<Rightarrow> string \<Rightarrow> error + string" where
  "replaceAlbumPrefix oldName newSlug p =
     (if list_ex (\<lambda>ch. ch \<in> set regExpSyntax) oldName \<or> CHR ''$'' \<in> set newSlug
      then Inl UnsupportedPattern
      else if take (length oldName + 1) p = oldName @ ''/''
      then Inr (newSlug @ ''/'' @ drop (length oldName + 1) p)
      else Inr p)"

text \<open>
  \<^verbatim>\<open>
      for (const image of imagesToMove) {
          const newPath = image.path.replace(new RegExp(`^${oldName}/`), `${newSlug}/`);
          const content = await getRawFileContent(image.path);
          await uploadFile(githubToken, newPath, content);
          newImageEntries.push({ ...image, path: newPath });
          const sha = await getFileSha(githubToken, image.path);
          if (sha) await deleteFile(githubToken, image.path, sha);
      }
  \<close>
\<close>

fun renameLoop ::
  "string \<Rightarrow> string \<Rightarrow> GithubManifestItem list \<Rightarrow> GithubManifestItem list \<Rightarrow> world
     \<Rightarrow> (error + GithubManifestItem list) \<times> world" where
  "renameLoop oldName newSlug [] newImageEntries w = (Inr newImageEntries, w)"
| "renameLoop oldName newSlug (img # images) newImageEntries w =
     (case replaceAlbumPrefix oldName newSlug (path img) of
        Inl e \<Rightarrow> (Inl e, w)
      | Inr newPath \<Rightarrow>
          (case getRawFileContent (path img) w of
             (Inl e, w1) \<Rightarrow> (Inl e, w1)
           | (Inr content, w1) \<Rightarrow>
               (case uploadFile newPath content w1 of
                  (Inl e, w2) \<Rightarrow> (Inl e, w2)
                | (Inr u, w2) \<Rightarrow>
                    (let entries = newImageEntries @ [img\<lparr>path := newPath\<rparr>] in
                     case getFileSha (path img) w2 of
                       (Inl e, w3) \<Rightarrow> (Inl e, w3)
                     | (Inr sha, w3) \<Rightarrow>
                         if truthy sha then
                           (case deleteFile (path img) sha w3 of
                              (Inl e, w4) \<Rightarrow> (Inl e, w4)
                            | (Inr u', w4) \<Rightarrow> renameLoop oldName newSlug images entries w4)
                         else renameLoop oldName newSlug images entries w3))))"

definition handleRenameAlbum_try ::
  "string \<Rightarrow> string \<Rightarrow> GithubManifest \<Rightarrow> SettingsTab \<Rightarrow> world
     \<Rightarrow> (error option \<times> SettingsTab) \<times> world" where
  "handleRenameAlbum_try oldName newSlug m c w =
     (case imagesOf m oldName of
        Inl e \<Rightarrow> ((Some e, c), w)
      | Inr imagesToMove \<Rightarrow>
          (case renameLoop oldName newSlug imagesToMove [] w of
             (Inl e, w1) \<Rightarrow> ((Some e, c), w1)
           | (Inr newImageEntries, w1) \<Rightarrow>
               (let newManifest = m\<lparr>albums := ((albums m)(oldName := None))(newSlug \<mapsto> newImageEntries)\<rparr>;
                    c' = c\<lparr>manifest := Some newManifest\<rparr>
                in case updateAndPushManifest newManifest
                          (''Successfully renamed album to '' @ newSlug @ ''.'') c' w1 of
                     (Inl e, w2) \<Rightarrow> ((Some e, c'), w2)
                   | (Inr c'', w2) \<Rightarrow> ((None, c''), w2))))"

text \<open>
  \<^verbatim>\<open>
  const handleRenameAlbum = async (oldName: string, newName: string) => {
      const newSlug = slugify(newName);
      if (!manifest || oldName === 'normal' || !newSlug || oldName === newSlug
            || manifest.albums[newSlug]) {
          setError("Cannot rename: Invalid or duplicate name, or trying to rename the default 'normal' album.");
          return;
      }
      setIsProcessing(true);
      setActionMessage(`Renaming album ${oldName} to ${newSlug}...`);
      try { ... } catch (err) { setError(...) } finally { setIsProcessing(false); }
  };
  \<close>
  \<^verbatim>\<open>manifest.albums[newSlug]\<close> is truthy for an album of the manifest and for a name
  that \<^verbatim>\<open>Object.prototype\<close> defines.
\<close>

definition handleRenameAlbum :: "string \<Rightarrow> string \<Rightarrow> SettingsTab \<Rightarrow> world \<Rightarrow> SettingsTab \<times> world" where
  "handleRenameAlbum oldName newName c w =
     (let newSlug = slugify newName in
      case manifest c of
        None \<Rightarrow> (c\<lparr>error := Some CannotRename\<rparr>, w)
      | Some m \<Rightarrow>
          if oldName = ''normal'' \<or> newSlug = [] \<or> oldName = newSlug
             \<or> albumLookup (albums m) newSlug \<noteq> Absent
          then (c\<lparr>error := Some CannotRename\<rparr>, w)
          else
            (let c1 = c\<lparr>isProcessing := True,
                        actionMessage := Some (''Renaming album '' @ oldName @ '' to '' @ newSlug @ ''...'')\<rparr>
             in case handleRenameAlbum_try oldName newSlug m c1 w of
                  ((Some e, c2), w') \<Rightarrow> (c2\<lparr>error := Some e, isProcessing := False\<rparr>, w')
                | ((None, c2), w') \<Rightarrow> (c2\<lparr>isProcessing := False\<rparr>, w')))"


subsection \<open>Kinds of requests\<close>



subsection \<open>Example worlds\<close>

text \<open>A small runtime for the examples: \<^verbatim>\<open>JSON.parse\<close> and \<^verbatim>\<open>atob\<close> as tables over the
  texts that occur in them, a clock that advances by one millisecond per reading, and a
  user who confirms every dialog.\<close>

definition shaBody :: string where
  \<open>shaBody = ''{"sha":"abc"}''\<close>

definition okBody :: string where
  \<open>okBody = ''{"content":{}}''\<close>

definition legacyText :: string where
  \<open>legacyText = ''{"images": [{"path": "a.png", "createdAt": "2024-01-01T00:00:00.000Z"}]}''\<close>

definition oopsText :: string where
  \<open>oopsText = ''{"albums": "oops"}''\<close>

definition fiveText :: string where
  \<open>fiveText = ''{"albums": 5}''\<close>

definition versionText :: string where
  \<open>versionText = ''{"version": 2}''\<close>

definition fileBody :: "string \<Rightarrow> string" where
  \<open>fileBody b64 = ''{"sha":"m1","content":"'' @ b64 @ [CHR 0x22] @ ''}''\<close>

definition legacyItem :: jsval where
  "legacyItem = JObj [(''path'', JStr ''a.png''), (''createdAt'', JStr ''2024-01-01T00:00:00.000Z'')]"

definition exBase64 :: "(string \<times> string) list" where
  "exBase64 =
     [(''eyJpbWFnZXMiOiBbeyJwYXRoIjogImEucG5nIiwgImNyZWF0ZWRBdCI6ICIyMDI0LTAxLTAxVDAwOjAwOjAwLjAwMFoifV19'', legacyText),
      (''eyJhbGJ1bXMiOiAib29wcyJ9'', oopsText),
      (''eyJhbGJ1bXMiOiA1fQ=='', fiveText),
      (''eyJ2ZXJzaW9uIjogMn0='', versionText)]"

definition exJSON :: "(string \<times> jsval) list" where
  "exJSON =
     [(shaBody, JObj [(''sha'', JStr ''abc'')]),
      (okBody, JObj [(''content'', JObj [])]),
      (legacyText, JObj [(''images'', JArr [legacyItem])]),
      (oopsText, JObj [(''albums'', JStr ''oops'')]),
      (fiveText, JObj [(''albums'', JNum 5)]),
      (versionText, JObj [(''version'', JNum 2)])]
     @ map (\<lambda>kv. (fileBody (fst kv), JObj [(''sha'', JStr ''m1''), (''content'', JStr (fst kv))])) exBase64"

definition exAtob :: "jsval \<Rightarrow> string option" where
  "exAtob v = (case v of JStr s \<Rightarrow> map_of exBase64 s | _ \<Rightarrow> None)"

definition exClock :: "nat \<Rightarrow> reading" where
  "exClock n = \<lparr>millis = 1700000000000 + int n, iso = ''2023-11-14T22:13:20.000Z''\<rparr>"

definition exWorld :: "response list \<Rightarrow> world" where
  "exWorld rs =
     \<lparr>responses = rs, trace = [], clock = exClock, ticks = 0,
      JSON_parse = map_of exJSON, atob = exAtob, btoa_stringify = (\<lambda>m. ''e30=''),
      readAsDataURL = (\<lambda>b. Some (''data:image/png;base64,'' @ b)),
      confirm = (\<lambda>s. True)\<rparr>"

definition exItem :: "string \<Rightarrow> GithubManifestItem" where
  "exItem p = \<lparr>path = p, createdAt = ''2024-01-01T00:00:00.000Z''\<rparr>"

definition exManifest :: GithubManifest where
  "exManifest = \<lparr>albums = [''normal'' \<mapsto> [exItem ''normal/a.png'', exItem ''normal/b.png'', exItem ''normal/c.png''],
                            ''misc'' \<mapsto> [exItem ''misc/x.png'', exItem ''misc/y.png'']]\<rparr>"

definition exTab :: SettingsTab where
  "exTab = \<lparr>manifest = Some exManifest, error = None, actionMessage = None, isProcessing = False\<rparr>"

text \<open>Worlds whose first response carries a manifest file: the legacy format, an
  \<^verbatim>\<open>albums\<close> property that is a string, one that is a number, and none at all.\<close>

definition legacyWorld :: world where
  "legacyWorld = exWorld [Http 200 (fileBody
     ''eyJpbWFnZXMiOiBbeyJwYXRoIjogImEucG5nIiwgImNyZWF0ZWRBdCI6ICIyMDI0LTAxLTAxVDAwOjAwOjAwLjAwMFoifV19'')]"

definition oopsWorld :: world where
  "oopsWorld = exWorld [Http 200 (fileBody ''eyJhbGJ1bXMiOiAib29wcyJ9'')]"

definition fiveWorld :: world where
  "fiveWorld = exWorld [Http 200 (fileBody ''eyJhbGJ1bXMiOiA1fQ=='')]"

definition versionWorld :: world where
  "versionWorld = exWorld [Http 200 (fileBody ''eyJ2ZXJzaW9uIjogMn0='')]"

text \<open>Three files for the album \<open>vehicles\<close>, two of them with the same name.\<close>

definition exFiles :: "FileToUpload list" where
  "exFiles =
     [\<lparr>file' = \<lparr>fileName = ''Truck 1.JPG'', bytes = ''AAAA''\<rparr>, albumName = ''vehicles''\<rparr>,
      \<lparr>file' = \<lparr>fileName = ''Truck 1.JPG'', bytes = ''BBBB''\<rparr>, albumName = ''vehicles''\<rparr>,
      \<lparr>file' = \<lparr>fileName = ''loader.png'', bytes = ''CCCC''\<rparr>, albumName = ''vehicles''\<rparr>]"



text \<open>The tag of the image, its deletion, the tag of the manifest, its update.\<close>

definition deleteWorld :: world where
  "deleteWorld = exWorld [Http 200 shaBody, Http 200 [], Http 200 shaBody, Http 200 okBody]"

text \<open>For each of two images: its bytes, the upload, its tag, its deletion; then the tag of
  the manifest and its update.\<close>

definition renameWorld :: world where
  "renameWorld = exWorld
     [Http 200 ''PNG1'', Http 201 [], Http 200 shaBody, Http 200 [],
      Http 200 ''PNG2'', Http 201 [], Http 200 shaBody, Http 200 [],
      Http 200 shaBody, Http 200 okBody]"

section \<open>Properties\<close>

subsection \<open>What a request does to the world\<close>

text \<open>A request takes the next response and adds itself to the requests sent; the clock
  and the runtime are not touched.\<close>

lemma makeRequest_world:
  "snd (makeRequest req expectJson w) = w\<lparr>responses := tl (responses w), trace := trace w @ [req]\<rparr>"
  by (auto simp: makeRequest_def fetch_def split: list.split response.split option.split)


lemma getManifest_world:
  "snd (getManifest w) =
     w\<lparr>responses := tl (responses w), trace := trace w @ [GetContents ''manifest.json'']\<rparr>"
  using makeRequest_world [of "GetContents ''manifest.json''" True w]
  by (auto simp: getManifest_def getManifest_try_def split: prod.splits sum.splits option.splits)


subsection \<open>Values of the examples\<close>


lemma slugify_examples:
  "slugify [] = []"
  "slugify ''Misc'' = ''misc''"
  "slugify ''Normal'' = ''normal''"
  "slugify ''Vehicles'' = ''vehicles''"
  "slugify ''vehicles'' = ''vehicles''"
  "slugify ''Truck 1'' = ''truck-1''"
  "slugify ''  Mine   Tunnel -- 7!  '' = ''mine-tunnel-7''"
  by code_simp+




lemmas example_defs =
  exWorld_def exClock_def exTab_def exManifest_def exItem_def exFiles_def exJSON_def exBase64_def
  exAtob_def shaBody_def okBody_def fileBody_def legacyText_def oopsText_def fiveText_def
  versionText_def legacyItem_def

lemmas service_defs =
  makeRequest_def fetch_def ok_def getManifest_def getManifest_try_def getFileSha_def
  getRawFileContent_def uploadFile_def updateFile_def deleteFile_def afterComma_def now_def
  albumLookup_def objectPrototypeKeys_def defaultManifest_def Let_def

subsection \<open>The commit\<close>

text \<open>
  C2. \<^verbatim>\<open>updateAndPushManifest\<close> takes no revision tag from its caller. Whatever the state
  and the world, the first request it sends is the read of \<^verbatim>\<open>manifest.json\<close>; if that
  read fails, nothing is written; if it yields a tag (a truthy \<^verbatim>\<open>sha\<close>), the one
  request that follows is the update of \<^verbatim>\<open>manifest.json\<close> carrying exactly this tag; and
  if it yields none, the one request that follows is the create (a write without tag).
\<close>

theorem updateAndPushManifest_rereads_tag:
  "trace (snd (updateAndPushManifest newManifest summaryMessage c w)) =
     trace w @ GetContents ''manifest.json'' #
       (case fst (getFileSha ''manifest.json'' w) of
          Inl e \<Rightarrow> []
        | Inr sha \<Rightarrow>
            [PutContents ''manifest.json'' (JStr (btoa_stringify w newManifest))
               (if truthy sha then Some sha else None)])"
  by (auto simp: updateAndPushManifest_def getFileSha_def makeRequest_def fetch_def
        updateFile_def uploadFile_def Let_def
      split: list.splits response.splits option.splits sum.splits prod.splits if_splits)

text \<open>With a manifest that exists remotely under the tag \<open>abc\<close>, the commit reads the tag
  and updates with it; when the read answers 404, the commit creates the file.\<close>

theorem updateAndPushManifest_rereads_tag_witness:
  "trace (snd (updateAndPushManifest exManifest ''done'' exTab
                 (exWorld [Http 200 shaBody, Http 200 okBody]))) =
     [GetContents ''manifest.json'',
      PutContents ''manifest.json'' (JStr ''e30='') (Some (JStr ''abc''))]
   \<and> trace (snd (updateAndPushManifest exManifest ''done'' exTab
                 (exWorld [Http 404 [], Http 201 okBody]))) =
     [GetContents ''manifest.json'', PutContents ''manifest.json'' (JStr ''e30='') None]"
  using updateAndPushManifest_rereads_tag
          [of exManifest "''done''" exTab "exWorld [Http 200 shaBody, Http 200 okBody]"]
        updateAndPushManifest_rereads_tag
          [of exManifest "''done''" exTab "exWorld [Http 404 [], Http 201 okBody]"]
  by (simp add: exWorld_def getFileSha_def makeRequest_def fetch_def ok_def exJSON_def
        shaBody_def okBody_def)

subsection \<open>Guards of the album handlers\<close>

text \<open>
  C5, as the code has it. \<^verbatim>\<open>handleDeleteAlbum\<close> on the album \<open>normal\<close> returns at its
  guard: the state of the component (manifest, error, message) and the world (so the
  requests sent) are what they were. No error is raised or shown.
\<close>

theorem deleteAlbum_normal_is_noop:
  "handleDeleteAlbum ''normal'' c w = (c, w)"
  by (simp add: handleDeleteAlbum_def split: option.split)

theorem deleteAlbum_normal_is_noop_witness:
  "handleDeleteAlbum ''normal'' exTab deleteWorld = (exTab, deleteWorld)"
  using deleteAlbum_normal_is_noop [of exTab deleteWorld] by simp

text \<open>C5, as it is stated, asks for an error. Deleting \<open>normal\<close> in a state without error
  ends in a state without error.\<close>

theorem deleteAlbum_normal_no_error_counterexample:
  "error exTab = None \<and> error (fst (handleDeleteAlbum ''normal'' exTab deleteWorld)) = None"
  by (simp add: handleDeleteAlbum_def exTab_def)

text \<open>
  C6. \<^verbatim>\<open>handleRenameAlbum\<close> sets the error \<^verbatim>\<open>Cannot rename: ...\<close> and changes nothing
  else, neither in the component nor in the world (no request is sent), whenever the old
  name is \<open>normal\<close>, or the slug of the new name is empty, or equals the old name, or is
  the name of an album of the manifest.
\<close>

theorem renameAlbum_rejects_invalid:
  assumes "oldName = ''normal'' \<or> slugify newName = [] \<or> slugify newName = oldName
           \<or> (\<exists>m. manifest c = Some m \<and> slugify newName \<in> dom (albums m))"
  shows "handleRenameAlbum oldName newName c w = (c\<lparr>error := Some CannotRename\<rparr>, w)"
  using assms
  by (auto simp: handleRenameAlbum_def Let_def albumLookup_def split: option.splits)

text \<open>Renaming \<open>normal\<close>; renaming \<open>misc\<close> to the empty name, to itself (\<open>Misc\<close> has the slug
  \<open>misc\<close>) and to the existing \<open>normal\<close>: each is rejected, and the world with its ten
  responses waiting is left as it was.\<close>

theorem renameAlbum_rejects_invalid_witness:
  "handleRenameAlbum ''normal'' ''Vehicles'' exTab renameWorld = (exTab\<lparr>error := Some CannotRename\<rparr>, renameWorld)
   \<and> handleRenameAlbum ''misc'' [] exTab renameWorld = (exTab\<lparr>error := Some CannotRename\<rparr>, renameWorld)
   \<and> handleRenameAlbum ''misc'' ''Misc'' exTab renameWorld = (exTab\<lparr>error := Some CannotRename\<rparr>, renameWorld)
   \<and> handleRenameAlbum ''misc'' ''Normal'' exTab renameWorld = (exTab\<lparr>error := Some CannotRename\<rparr>, renameWorld)"
  using renameAlbum_rejects_invalid [of "''normal''" "''Vehicles''" exTab renameWorld]
        renameAlbum_rejects_invalid [of "''misc''" "[]" exTab renameWorld]
        renameAlbum_rejects_invalid [of "''misc''" "''Misc''" exTab renameWorld]
        renameAlbum_rejects_invalid [of "''misc''" "''Normal''" exTab renameWorld]
  by (simp add: slugify_examples exTab_def exManifest_def)

subsection \<open>Loading the manifest\<close>

lemma isArray_truthy: "isArray v \<Longrightarrow> truthy v"
  by (cases v) auto

lemma getManifest_decoded:
  assumes "fst (makeRequest (GetContents ''manifest.json'') True w) = Inr data" "truthy data"
    "getProp data ''content'' = Inr c" "atob w c = Some content" "JSON_parse w content = Some parsed"
  shows "fst (getManifest w) =
    (case getProp parsed ''images'' of
       Inl e \<Rightarrow> defaultManifest
     | Inr i \<Rightarrow>
         if isArray i then JObj [(''albums'', JObj [(''normal'', i)])]
         else (case getProp parsed ''albums'' of
                 Inl e \<Rightarrow> defaultManifest
               | Inr a \<Rightarrow> if truthy a then parsed else defaultManifest))"
proof -
  obtain r w' where mr: "makeRequest (GetContents ''manifest.json'') True w = (r, w')"
    by (cases "makeRequest (GetContents ''manifest.json'') True w")
  with assms(1) have r: "r = Inr data" by simp
  have w': "w' = w\<lparr>responses := tl (responses w), trace := trace w @ [GetContents ''manifest.json'']\<rparr>"
    using makeRequest_world [of "GetContents ''manifest.json''" True w] mr by simp
  show ?thesis
    using assms(2-5) isArray_truthy
    by (auto simp: getManifest_def getManifest_try_def mr r w' split: sum.splits)
qed

lemma getManifest_request_fails:
  assumes "responses w = [] \<or> (\<exists>rs. responses w = Rejected # rs)
           \<or> (\<exists>status body rs. responses w = Http status body # rs \<and> (\<not> ok status \<or> JSON_parse w body = None))"
  shows "fst (getManifest w) = defaultManifest"
  using assms
  by (auto simp: getManifest_def getManifest_try_def makeRequest_def fetch_def
      split: prod.splits sum.splits option.splits if_splits)

lemma getManifest_undecodable:
  assumes "fst (makeRequest (GetContents ''manifest.json'') True w) = Inr data"
    and "getProp data ''content'' = Inr c"
    and "atob w c = None \<or> (\<exists>t. atob w c = Some t \<and> JSON_parse w t = None)"
  shows "fst (getManifest w) = defaultManifest"
  using assms makeRequest_world [of "GetContents ''manifest.json''" True w]
  by (auto simp: getManifest_def getManifest_try_def split: prod.splits sum.splits option.splits)

lemma getManifest_albums_truthy:
  "\<exists>a. getProp (fst (getManifest w)) ''albums'' = Inr a \<and> truthy a"
  by (auto simp: getManifest_def getManifest_try_def defaultManifest_def
      split: prod.splits sum.splits option.splits if_splits)

text \<open>
  C9. When the read of \<^verbatim>\<open>manifest.json\<close> succeeds and its content decodes to a value
  with an array under \<^verbatim>\<open>images\<close>, \<^verbatim>\<open>getManifest\<close> returns the manifest whose one album
  \<open>normal\<close> holds that array: the same elements in the same order. The world afterwards
  differs by the one read request: nothing is written back.
\<close>

theorem getManifest_migrates_legacy:
  assumes "fst (makeRequest (GetContents ''manifest.json'') True w) = Inr data" and "truthy data"
    and "getProp data ''content'' = Inr c" and "atob w c = Some content"
    and "JSON_parse w content = Some parsed"
    and "getProp parsed ''images'' = Inr (JArr xs)"
  shows "getManifest w =
           (JObj [(''albums'', JObj [(''normal'', JArr xs)])],
            w\<lparr>responses := tl (responses w), trace := trace w @ [GetContents ''manifest.json'']\<rparr>)"
  using getManifest_decoded [OF assms(1-5)] assms(6) getManifest_world [of w]
  by (simp add: prod_eq_iff)

text \<open>The stored content \<^verbatim>\<open>{"images": [{"path": "a.png", "createdAt": ...}]}\<close>.\<close>

lemma legacy_steps:
  "fst (makeRequest (GetContents ''manifest.json'') True legacyWorld) =
     Inr (JObj [(''sha'', JStr ''m1''), (''content'', JStr ''eyJpbWFnZXMiOiBbeyJwYXRoIjogImEucG5nIiwgImNyZWF0ZWRBdCI6ICIyMDI0LTAxLTAxVDAwOjAwOjAwLjAwMFoifV19'')])"
  "atob legacyWorld (JStr ''eyJpbWFnZXMiOiBbeyJwYXRoIjogImEucG5nIiwgImNyZWF0ZWRBdCI6ICIyMDI0LTAxLTAxVDAwOjAwOjAwLjAwMFoifV19'') = Some legacyText"
  "JSON_parse legacyWorld legacyText = Some (JObj [(''images'', JArr [legacyItem])])"
  by (simp_all add: legacyWorld_def service_defs example_defs)

theorem getManifest_migrates_legacy_witness:
  "getManifest legacyWorld =
     (JObj [(''albums'', JObj [(''normal'', JArr [legacyItem])])],
      legacyWorld\<lparr>responses := [], trace := [GetContents ''manifest.json'']\<rparr>)"
  using getManifest_migrates_legacy [of legacyWorld _ _ legacyText _ "[legacyItem]", OF legacy_steps(1) _ _ legacy_steps(2) legacy_steps(3)]
  by (simp add: legacyWorld_def exWorld_def)


text \<open>
  C8, as the code has it. \<^verbatim>\<open>getManifest\<close> returns the bootstrap manifest when the read
  is answered by status 404. When the content decodes to a value without an array under
  \<^verbatim>\<open>images\<close>, it returns the bootstrap manifest if the property \<^verbatim>\<open>albums\<close> is absent or
  falsy, and the decoded value itself, unchecked, if \<^verbatim>\<open>albums\<close> is anything truthy.
  The result is a value in every case, never an error.
\<close>

theorem getManifest_bootstrap_cases:
  "(\<forall>body rs. responses w = Http 404 body # rs \<longrightarrow> fst (getManifest w) = defaultManifest)
   \<and> (\<forall>data c content parsed i a.
         fst (makeRequest (GetContents ''manifest.json'') True w) = Inr data \<and> truthy data
         \<and> getProp data ''content'' = Inr c \<and> atob w c = Some content
         \<and> JSON_parse w content = Some parsed
         \<and> getProp parsed ''images'' = Inr i \<and> \<not> isArray i
         \<and> getProp parsed ''albums'' = Inr a
         \<longrightarrow> fst (getManifest w) = (if truthy a then parsed else defaultManifest))"
proof (intro conjI allI impI)
  fix body rs
  assume "responses w = Http 404 body # rs"
  then show "fst (getManifest w) = defaultManifest"
    using getManifest_request_fails [of w] by (simp add: ok_def)
next
  fix data c content parsed i a
  assume h: "fst (makeRequest (GetContents ''manifest.json'') True w) = Inr data \<and> truthy data
         \<and> getProp data ''content'' = Inr c \<and> atob w c = Some content
         \<and> JSON_parse w content = Some parsed
         \<and> getProp parsed ''images'' = Inr i \<and> \<not> isArray i
         \<and> getProp parsed ''albums'' = Inr a"
  then show "fst (getManifest w) = (if truthy a then parsed else defaultManifest)"
    using getManifest_decoded [of w data c content parsed] by simp
qed

text \<open>No manifest file; and the stored content \<^verbatim>\<open>{"version": 2}\<close>, which has neither
  \<^verbatim>\<open>images\<close> nor \<^verbatim>\<open>albums\<close>.\<close>

lemma version_steps:
  "fst (makeRequest (GetContents ''manifest.json'') True versionWorld) =
     Inr (JObj [(''sha'', JStr ''m1''), (''content'', JStr ''eyJ2ZXJzaW9uIjogMn0='')])"
  "atob versionWorld (JStr ''eyJ2ZXJzaW9uIjogMn0='') = Some versionText"
  "JSON_parse versionWorld versionText = Some (JObj [(''version'', JNum 2)])"
  by (simp_all add: versionWorld_def service_defs example_defs)

theorem getManifest_bootstrap_cases_witness:
  "fst (getManifest (exWorld [Http 404 []])) = defaultManifest
   \<and> fst (getManifest versionWorld) = defaultManifest"
  using getManifest_bootstrap_cases [of "exWorld [Http 404 []]", THEN conjunct1, rule_format, of "[]" "[]"]
        getManifest_bootstrap_cases [of versionWorld, THEN conjunct2, rule_format,
          of "JObj [(''sha'', JStr ''m1''), (''content'', JStr ''eyJ2ZXJzaW9uIjogMn0='')]"
             "JStr ''eyJ2ZXJzaW9uIjogMn0=''" versionText "JObj [(''version'', JNum 2)]"
             JUndefined JUndefined]
        version_steps
  by (simp add: exWorld_def)

text \<open>C8, as it is stated, sends a malformed \<^verbatim>\<open>albums\<close> to the bootstrap manifest. The
  stored content \<^verbatim>\<open>{"albums": "oops"}\<close> comes back as it is.\<close>

theorem getManifest_malformed_albums_counterexample:
  "fst (getManifest oopsWorld) = JObj [(''albums'', JStr ''oops'')]
   \<and> fst (getManifest oopsWorld) \<noteq> defaultManifest"
  by (simp add: oopsWorld_def service_defs example_defs)

text \<open>
  C10, as the code has it. \<^verbatim>\<open>getManifest\<close> returns a value in every world, and that
  value has a truthy property \<^verbatim>\<open>albums\<close> (which is a mapping when the stored manifest
  is well formed; it is not checked). It returns the bootstrap manifest when the network
  gives no response, when the status is not ok (404 or any other), when the body is not
  JSON, when the content is not base64 or not JSON, and on any other exception of its
  \<^verbatim>\<open>try\<close> block. It sends the one read request and nothing else.
\<close>

theorem getManifest_never_fails:
  "(\<exists>a. getProp (fst (getManifest w)) ''albums'' = Inr a \<and> truthy a)
   \<and> (responses w = [] \<or> (\<exists>rs. responses w = Rejected # rs)
        \<or> (\<exists>status body rs. responses w = Http status body # rs
              \<and> (\<not> ok status \<or> JSON_parse w body = None))
       \<longrightarrow> fst (getManifest w) = defaultManifest)
   \<and> (\<forall>data c. fst (makeRequest (GetContents ''manifest.json'') True w) = Inr data
         \<and> getProp data ''content'' = Inr c
         \<and> (atob w c = None \<or> (\<exists>t. atob w c = Some t \<and> JSON_parse w t = None))
         \<longrightarrow> fst (getManifest w) = defaultManifest)
   \<and> (\<forall>e. fst (getManifest_try w) = Inl e \<longrightarrow> fst (getManifest w) = defaultManifest)
   \<and> snd (getManifest w) =
       w\<lparr>responses := tl (responses w), trace := trace w @ [GetContents ''manifest.json'']\<rparr>"
proof (intro conjI allI impI)
  show "\<exists>a. getProp (fst (getManifest w)) ''albums'' = Inr a \<and> truthy a"
    by (rule getManifest_albums_truthy)
next
  assume "responses w = [] \<or> (\<exists>rs. responses w = Rejected # rs)
        \<or> (\<exists>status body rs. responses w = Http status body # rs
              \<and> (\<not> ok status \<or> JSON_parse w body = None))"
  then show "fst (getManifest w) = defaultManifest" by (rule getManifest_request_fails)
next
  fix data c
  assume "fst (makeRequest (GetContents ''manifest.json'') True w) = Inr data
         \<and> getProp data ''content'' = Inr c
         \<and> (atob w c = None \<or> (\<exists>t. atob w c = Some t \<and> JSON_parse w t = None))"
  then show "fst (getManifest w) = defaultManifest"
    using getManifest_undecodable [of w data c] by blast
next
  fix e
  assume "fst (getManifest_try w) = Inl e"
  then show "fst (getManifest w) = defaultManifest"
    by (auto simp: getManifest_def split: prod.splits sum.splits)
next
  show "snd (getManifest w) =
       w\<lparr>responses := tl (responses w), trace := trace w @ [GetContents ''manifest.json'']\<rparr>"
    by (rule getManifest_world)
qed

text \<open>A network that is down, a server error, and a body that is not JSON.\<close>

theorem getManifest_never_fails_witness:
  "fst (getManifest (exWorld [Rejected])) = defaultManifest
   \<and> fst (getManifest (exWorld [Http 503 ''Service Unavailable''])) = defaultManifest
   \<and> fst (getManifest (exWorld [Http 200 ''<html>''])) = defaultManifest
   \<and> trace (snd (getManifest (exWorld [Rejected]))) = [GetContents ''manifest.json'']"
  using getManifest_never_fails [of "exWorld [Rejected]"]
        getManifest_never_fails [of "exWorld [Http 503 ''Service Unavailable'']"]
        getManifest_never_fails [of "exWorld [Http 200 ''<html>'']"]
  by (simp add: exWorld_def ok_def exJSON_def exBase64_def shaBody_def okBody_def fileBody_def
        legacyText_def oopsText_def fiveText_def versionText_def)

text \<open>C10, as it is stated, promises a mapping under \<^verbatim>\<open>albums\<close>. The stored content
  \<^verbatim>\<open>{"albums": 5}\<close> is returned with the number under \<^verbatim>\<open>albums\<close>.\<close>

theorem getManifest_albums_number_counterexample:
  "fst (getManifest fiveWorld) = JObj [(''albums'', JNum 5)]
   \<and> getProp (fst (getManifest fiveWorld)) ''albums'' = Inr (JNum 5)"
  by (simp add: fiveWorld_def service_defs example_defs)

subsection \<open>Deleting an image\<close>

lemma getFileSha_world:
  "snd (getFileSha p w) = w\<lparr>responses := tl (responses w), trace := trace w @ [GetContents p]\<rparr>"
  using makeRequest_world [of "GetContents p" True w]
  by (auto simp: getFileSha_def split: prod.splits sum.splits)

lemma filter_keeps_others:
  "p \<notin> path ` set xs \<Longrightarrow> filter (\<lambda>img. path img \<noteq> p) xs = xs"
  by (induction xs) auto

lemma filter_removes_one:
  assumes "distinct (map path imgs)" "r \<in> set imgs"
  shows "\<exists>xs ys. imgs = xs @ r # ys \<and> filter (\<lambda>img. path img \<noteq> path r) imgs = xs @ ys"
proof -
  from assms(2) obtain xs ys where s: "imgs = xs @ r # ys" by (auto dest: split_list)
  with assms(1) have "path r \<notin> path ` set xs" "path r \<notin> path ` set ys" by auto
  then have "filter (\<lambda>img. path img \<noteq> path r) xs = xs" "filter (\<lambda>img. path img \<noteq> path r) ys = ys"
    by (simp_all add: filter_keeps_others)
  with s show ?thesis by auto
qed

lemma deleteImage_success:
  assumes "manifest c = Some m" "error c = None" "albums m album = Some imgs"
    "confirm w ''Are you sure you want to delete this image? This action is permanent.''"
    "error (fst (handleDeleteImage album p c w)) = None"
  shows "manifest (fst (handleDeleteImage album p c w)) =
           Some (m\<lparr>albums := (albums m)(album \<mapsto> filter (\<lambda>img. path img \<noteq> p) imgs)\<rparr>)"
  using assms
  by (auto simp: handleDeleteImage_def handleDeleteImage_try_def updateAndPushManifest_def
        albumLookup_def Let_def
      split: if_splits prod.splits sum.splits option.splits)

lemma deleteImage_not_found:
  assumes "manifest c = Some m"
    "confirm w ''Are you sure you want to delete this image? This action is permanent.''"
    "fst (getFileSha p w) = Inr sha" "\<not> truthy sha"
  shows "handleDeleteImage album p c w =
           (c\<lparr>isProcessing := False, actionMessage := Some (''Deleting '' @ p @ ''...''),
              error := Some CouldNotFindFile\<rparr>,
            w\<lparr>responses := tl (responses w), trace := trace w @ [GetContents p]\<rparr>)"
proof -
  obtain r w1 where g: "getFileSha p w = (r, w1)" by (cases "getFileSha p w")
  with assms(3) have r: "r = Inr sha" by simp
  have w1: "w1 = w\<lparr>responses := tl (responses w), trace := trace w @ [GetContents p]\<rparr>"
    using getFileSha_world [of p w] g by simp
  show ?thesis
    using assms(1,2,4) g r w1
    by (simp add: handleDeleteImage_def handleDeleteImage_try_def Let_def)
qed

text \<open>
  C4. Let the component hold a manifest, and let the user confirm. If
  \<^verbatim>\<open>handleDeleteImage\<close> ends without error, the manifest of the component is the old
  one with the list of the album filtered: the records with another path are kept, in
  their order, and the other albums are untouched. If moreover the album holds a record
  \<open>r\<close> with the given path and the paths of the album are distinct (the invariant of the
  data model), exactly \<open>r\<close> is taken out: the records before it and after it remain.
  If no revision tag can be read for the path (\<^verbatim>\<open>getFileSha\<close> yields \<^verbatim>\<open>null\<close> or another
  falsy value), the handler ends with the error \<^verbatim>\<open>Could not find file to delete.\<close>; it
  has sent the one read request, and the manifest is as it was.
\<close>

theorem deleteImage_removes_one_record:
  assumes "manifest c = Some m"
    and "confirm w ''Are you sure you want to delete this image? This action is permanent.''"
  shows "(\<forall>imgs. albums m album = Some imgs
            \<and> error c = None \<and> error (fst (handleDeleteImage album p c w)) = None
          \<longrightarrow> manifest (fst (handleDeleteImage album p c w)) =
                Some (m\<lparr>albums := (albums m)(album \<mapsto> filter (\<lambda>img. path img \<noteq> p) imgs)\<rparr>))
       \<and> (\<forall>imgs r. albums m album = Some imgs \<and> distinct (map path imgs) \<and> r \<in> set imgs
            \<and> error c = None \<and> error (fst (handleDeleteImage album (path r) c w)) = None
          \<longrightarrow> (\<exists>xs ys. imgs = xs @ r # ys
                 \<and> manifest (fst (handleDeleteImage album (path r) c w)) =
                     Some (m\<lparr>albums := (albums m)(album \<mapsto> xs @ ys)\<rparr>)))
       \<and> (\<forall>sha. fst (getFileSha p w) = Inr sha \<and> \<not> truthy sha
          \<longrightarrow> handleDeleteImage album p c w =
                (c\<lparr>isProcessing := False, actionMessage := Some (''Deleting '' @ p @ ''...''),
                   error := Some CouldNotFindFile\<rparr>,
                 w\<lparr>responses := tl (responses w), trace := trace w @ [GetContents p]\<rparr>))"
proof (intro conjI allI impI)
  fix imgs
  assume "albums m album = Some imgs
            \<and> error c = None \<and> error (fst (handleDeleteImage album p c w)) = None"
  then show "manifest (fst (handleDeleteImage album p c w)) =
                Some (m\<lparr>albums := (albums m)(album \<mapsto> filter (\<lambda>img. path img \<noteq> p) imgs)\<rparr>)"
    using deleteImage_success [OF assms(1) _ _ assms(2)] by blast
next
  fix imgs r
  assume h: "albums m album = Some imgs \<and> distinct (map path imgs) \<and> r \<in> set imgs
            \<and> error c = None \<and> error (fst (handleDeleteImage album (path r) c w)) = None"
  then obtain xs ys where
    s: "imgs = xs @ r # ys" "filter (\<lambda>img. path img \<noteq> path r) imgs = xs @ ys"
    using filter_removes_one by blast
  from h have "manifest (fst (handleDeleteImage album (path r) c w)) =
           Some (m\<lparr>albums := (albums m)(album \<mapsto> filter (\<lambda>img. path img \<noteq> path r) imgs)\<rparr>)"
    using deleteImage_success [OF assms(1) _ _ assms(2)] by blast
  with s show "\<exists>xs ys. imgs = xs @ r # ys
                 \<and> manifest (fst (handleDeleteImage album (path r) c w)) =
                     Some (m\<lparr>albums := (albums m)(album \<mapsto> xs @ ys)\<rparr>)"
    by auto
next
  fix sha
  assume "fst (getFileSha p w) = Inr sha \<and> \<not> truthy sha"
  then show "handleDeleteImage album p c w =
                (c\<lparr>isProcessing := False, actionMessage := Some (''Deleting '' @ p @ ''...''),
                   error := Some CouldNotFindFile\<rparr>,
                 w\<lparr>responses := tl (responses w), trace := trace w @ [GetContents p]\<rparr>)"
    using deleteImage_not_found [OF assms(1,2)] by blast
qed

lemmas handler_defs =
  handleDeleteImage_def handleDeleteImage_try_def handleDeleteAlbum_def handleDeleteAlbum_try_def
  handleRenameAlbum_def handleRenameAlbum_try_def handleUploadComplete_def
  handleUploadComplete_try_def updateAndPushManifest_def uploadOne_def imagesOf_def
  replaceAlbumPrefix_def regExpSyntax_def

text \<open>Deleting the second of three images of \<open>normal\<close>; and deleting an image for which
  the read of the tag is answered by 404.\<close>

lemma deleteImage_example:
  "error (fst (handleDeleteImage ''normal'' ''normal/b.png'' exTab deleteWorld)) = None"
  "(case manifest (fst (handleDeleteImage ''normal'' ''normal/b.png'' exTab deleteWorld)) of
      None \<Rightarrow> None | Some m' \<Rightarrow> albums m' ''normal'')
     = Some [exItem ''normal/a.png'', exItem ''normal/c.png'']"
  "fst (getFileSha ''normal/zz.png'' (exWorld [Http 404 []])) = Inr JNull"
  by (simp_all add: deleteWorld_def handler_defs service_defs example_defs)

theorem deleteImage_removes_one_record_witness:
  "(\<exists>xs ys. [exItem ''normal/a.png'', exItem ''normal/b.png'', exItem ''normal/c.png'']
               = xs @ exItem ''normal/b.png'' # ys
        \<and> manifest (fst (handleDeleteImage ''normal'' ''normal/b.png'' exTab deleteWorld)) =
            Some (exManifest\<lparr>albums := (albums exManifest)(''normal'' \<mapsto> xs @ ys)\<rparr>))
   \<and> (case manifest (fst (handleDeleteImage ''normal'' ''normal/b.png'' exTab deleteWorld)) of
         None \<Rightarrow> None | Some m' \<Rightarrow> albums m' ''normal'')
       = Some [exItem ''normal/a.png'', exItem ''normal/c.png'']
   \<and> handleDeleteImage ''normal'' ''normal/zz.png'' exTab (exWorld [Http 404 []]) =
       (exTab\<lparr>isProcessing := False, actionMessage := Some ''Deleting normal/zz.png...'',
              error := Some CouldNotFindFile\<rparr>,
        (exWorld [Http 404 []])\<lparr>responses := [], trace := [GetContents ''normal/zz.png'']\<rparr>)"
proof -
  have m: "manifest exTab = Some exManifest"
    and e: "error exTab = None"
    and a: "albums exManifest ''normal'' = Some [exItem ''normal/a.png'', exItem ''normal/b.png'', exItem ''normal/c.png'']"
    and d: "distinct (map path [exItem ''normal/a.png'', exItem ''normal/b.png'', exItem ''normal/c.png''])"
    and p: "path (exItem ''normal/b.png'') = ''normal/b.png''"
    by (simp_all add: exTab_def exManifest_def exItem_def)
  have c1: "confirm deleteWorld ''Are you sure you want to delete this image? This action is permanent.''"
    and c2: "confirm (exWorld [Http 404 []]) ''Are you sure you want to delete this image? This action is permanent.''"
    by (simp_all add: deleteWorld_def exWorld_def)
  from deleteImage_removes_one_record [OF m c1, of "''normal''" "''x''", THEN conjunct2, THEN conjunct1, rule_format,
         of "[exItem ''normal/a.png'', exItem ''normal/b.png'', exItem ''normal/c.png'']" "exItem ''normal/b.png''"]
       a d e p deleteImage_example(1)
  have 1: "\<exists>xs ys. [exItem ''normal/a.png'', exItem ''normal/b.png'', exItem ''normal/c.png'']
               = xs @ exItem ''normal/b.png'' # ys
        \<and> manifest (fst (handleDeleteImage ''normal'' ''normal/b.png'' exTab deleteWorld)) =
            Some (exManifest\<lparr>albums := (albums exManifest)(''normal'' \<mapsto> xs @ ys)\<rparr>)"
    by simp
  from deleteImage_removes_one_record [OF m c2, of "''normal''" "''normal/zz.png''", THEN conjunct2, THEN conjunct2, rule_format, of JNull]
       deleteImage_example(3)
  have 2: "handleDeleteImage ''normal'' ''normal/zz.png'' exTab (exWorld [Http 404 []]) =
       (exTab\<lparr>isProcessing := False, actionMessage := Some ''Deleting normal/zz.png...'',
              error := Some CouldNotFindFile\<rparr>,
        (exWorld [Http 404 []])\<lparr>responses := [], trace := [GetContents ''normal/zz.png'']\<rparr>)"
    by (simp add: exWorld_def)
  from 1 2 deleteImage_example(2) show ?thesis by blast
qed


subsection \<open>Renaming an album\<close>







subsection \<open>Decimal numbers\<close>









subsection \<open>Paths of new images\<close>






subsection \<open>The upload loop\<close>













subsection \<open>A failed upload\<close>



text \<open>A status 404 is no exception for \<^verbatim>\<open>makeRequest\<close>, whatever the method: an upload
  that is answered by 404 returns like one that was accepted, and the loop goes on. The
  failed uploads of the statements below are those that throw.\<close>

lemma uploadFile_not_found_returns:
  "responses w = Http 404 body # rs \<Longrightarrow> fst (uploadFile p content w) = Inr ()"
  by (simp add: uploadFile_def makeRequest_def fetch_def ok_def)






end
